theory Spec2Isabelle
  imports Complex_Main "HOL-Library.Multiset"
begin

section \<open>Errors\<close>

text \<open>
  Every failure of \<^verbatim>\<open>app/utils.py\<close> is a Python exception. The repository's own failures are
  all \<^verbatim>\<open>ValueError\<close>s told apart by their message; the constructors carry the names the
  specification gives them. The remaining constructors are the exceptions that the library calls
  of the source raise on their own.
\<close>

datatype error =
    InvalidSymbol                \<comment> \<open>\<^verbatim>\<open>ValueError("A symbol must be provided.")\<close>\<close>
  | InvalidDate string           \<comment> \<open>\<^verbatim>\<open>ValueError(f"Invalid ISO date: {date_str}")\<close>\<close>
  | InvalidRange                 \<comment> \<open>\<^verbatim>\<open>ValueError("start date cannot be after end date")\<close>\<close>
  | EmptyPayload                 \<comment> \<open>\<^verbatim>\<open>ValueError("Historical payload is empty.")\<close>\<close>
  | MissingRequiredFields        \<comment> \<open>\<^verbatim>\<open>ValueError("Historical payload must include ...")\<close>\<close>
  | MissingDateColumn            \<comment> \<open>\<^verbatim>\<open>ValueError("Historical data must contain a 'Date' column.")\<close>\<close>
  | DateParseError               \<comment> \<open>raised by \<^verbatim>\<open>pd.to_datetime\<close> on a value it cannot read\<close>
  | DuplicateDateColumns         \<comment> \<open>raised by \<^verbatim>\<open>pd.to_datetime\<close> when \<^verbatim>\<open>df["Date"]\<close> is a frame\<close>
  | IndexError                   \<comment> \<open>\<^verbatim>\<open>iloc\<close> on an empty series\<close>
  | ZeroDivisionError            \<comment> \<open>Python float division by zero\<close>
  | NaNToInteger                 \<comment> \<open>\<^verbatim>\<open>ValueError("cannot convert float NaN to integer")\<close>\<close>
  | InfinityToInteger            \<comment> \<open>\<^verbatim>\<open>OverflowError("cannot convert float infinity to integer")\<close>\<close>
  | InvalidReference             \<comment> \<open>the model's own: the argument names no object of the store\<close>
  | LibraryError                 \<comment> \<open>any failure inside \<^verbatim>\<open>np.polyfit\<close> on irregular input\<close>
  | OverflowError                \<comment> \<open>\<^verbatim>\<open>OverflowError\<close> of \<^verbatim>\<open>timedelta\<close> and of date arithmetic\<close>
  | TypeError                    \<comment> \<open>\<^verbatim>\<open>TypeError\<close> of comparing a naive with an aware \<^verbatim>\<open>datetime\<close>\<close>

section \<open>Strings\<close>


definition is_space :: "char \<Rightarrow> bool" where
  "is_space c = (let n = (of_char c :: nat) in (9 \<le> n \<and> n \<le> 13) \<or> (28 \<le> n \<and> n \<le> 32))"

definition strip :: "string \<Rightarrow> string" where
  "strip s = rev (dropWhile is_space (rev (dropWhile is_space s)))"

definition upper_char :: "char \<Rightarrow> char" where
  "upper_char c =
     (let n = (of_char c :: nat) in if 97 \<le> n \<and> n \<le> 122 then char_of (n - 32) else c)"


definition upper :: "string \<Rightarrow> string" where
  "upper s = map upper_char s"


text \<open>Truth value of an optional string: \<^verbatim>\<open>None\<close> and \<^verbatim>\<open>""\<close> are false.\<close>

definition str_truthy :: "string option \<Rightarrow> bool" where
  "str_truthy s = (case s of None \<Rightarrow> False | Some t \<Rightarrow> t \<noteq> [])"

section \<open>Symbol normalizer\<close>

text \<open>
  \<^verbatim>\<open>
  def normalize_symbol(symbol: str) -> str:
      if not symbol:
          raise ValueError("A symbol must be provided.")
      return symbol.strip().upper()
  \<close>
  The routes pass \<^verbatim>\<open>request.args.get("symbol")\<close>, so the argument may be \<^verbatim>\<open>None\<close>.
\<close>

definition normalize_symbol :: "string option \<Rightarrow> error + string" where
  "normalize_symbol symbol =
     (if \<not> str_truthy symbol then Inl InvalidSymbol else Inr (upper (strip (the symbol))))"

section \<open>Dates and the date range resolver\<close>

text \<open>
  A point of the calendar is the number of microseconds since midnight of proleptic Gregorian
  ordinal day 0, so that \<^verbatim>\<open>datetime.toordinal\<close> is a division by the length of a day.
\<close>

type_synonym timestamp = int

definition us_per_day :: int where
  "us_per_day = 86400000000"

definition toordinal :: "timestamp \<Rightarrow> int" where
  "toordinal t = t div us_per_day"
























section \<open>Payload normalization\<close>














text \<open>
  \<^verbatim>\<open>sort_values\<close> with its default \<^verbatim>\<open>kind="quicksort"\<close> goes through pandas' \<^verbatim>\<open>nargsort\<close>: the
  positions of the defined keys are permuted by numpy's \<^verbatim>\<open>argsort\<close>, the positions of the
  \<^verbatim>\<open>NaT\<close> keys follow in their original order. numpy's \<^verbatim>\<open>argsort\<close> is the parameter \<open>argsort\<close>;
  what it is known to do is \<open>argsort_ok\<close>: it returns a permutation of the positions that puts
  the keys in non-decreasing order.
\<close>

definition argsort_ok :: "(timestamp list \<Rightarrow> nat list) \<Rightarrow> bool" where
  "argsort_ok argsort =
     (\<forall>keys. mset (argsort keys) = mset [0..<length keys]
             \<and> sorted (map ((!) keys) (argsort keys)))"

definition nargsort :: "(timestamp list \<Rightarrow> nat list) \<Rightarrow> timestamp option list \<Rightarrow> nat list" where
  "nargsort argsort items =
     (let idx = [0..<length items];
          non_nan_idx = filter (\<lambda>i. items ! i \<noteq> None) idx;
          nan_idx = filter (\<lambda>i. items ! i = None) idx;
          non_nans = map (\<lambda>i. the (items ! i)) non_nan_idx
      in map ((!) non_nan_idx) (argsort non_nans) @ nan_idx)"

text \<open>
  Two of the argsorts that \<open>argsort_ok\<close> admits. The stable one keeps equal keys in their
  original order; the reversing one puts equal keys in the reverse of their original order.
  \<^verbatim>\<open>sort_values\<close> is called without \<^verbatim>\<open>kind\<close>, so numpy sorts with its default
  \<^verbatim>\<open>kind="quicksort"\<close>, which is not stable and promises no order among equal keys. On keys
  that are all distinct every admissible argsort returns the same positions.
\<close>

definition stable_argsort :: "timestamp list \<Rightarrow> nat list" where
  "stable_argsort keys = map snd (sort_key fst (zip keys [0..<length keys]))"












text \<open>
  Ascending order of a date column as \<^verbatim>\<open>sort_values\<close> leaves it: defined dates in
  non-decreasing order, \<^verbatim>\<open>NaT\<close> last.
\<close>

fun date_le :: "timestamp option \<Rightarrow> timestamp option \<Rightarrow> bool" where
  "date_le (Some a) (Some b) = (a \<le> b)"
| "date_le _ None = True"
| "date_le None (Some b) = False"

fun dates_ascending :: "timestamp option list \<Rightarrow> bool" where
  "dates_ascending [] = True"
| "dates_ascending [x] = True"
| "dates_ascending (x # y # zs) = (date_le x y \<and> dates_ascending (y # zs))"





section \<open>Floating-point values\<close>

text \<open>
  A float of numpy or Python is a real number, an infinity or \<^verbatim>\<open>NaN\<close>. Finite arithmetic is
  exact: rounding to 53 bits, overflow and the sign of zero are not modelled. The operations
  follow IEEE 754 on the special values, as numpy's do; Python's own division raises on a zero
  divisor instead.
\<close>

datatype fl = Fin real | PInf | NInf | NaN

definition is_nan :: "fl \<Rightarrow> bool" where
  "is_nan x = (x = NaN)"

fun is_finite :: "fl \<Rightarrow> bool" where
  "is_finite (Fin a) = True"
| "is_finite _ = False"

fun fin_val :: "fl \<Rightarrow> real" where
  "fin_val (Fin a) = a"
| "fin_val _ = 0"

fun fl_neg :: "fl \<Rightarrow> fl" where
  "fl_neg (Fin a) = Fin (- a)"
| "fl_neg PInf = NInf"
| "fl_neg NInf = PInf"
| "fl_neg NaN = NaN"

fun fl_add :: "fl \<Rightarrow> fl \<Rightarrow> fl" where
  "fl_add NaN _ = NaN"
| "fl_add _ NaN = NaN"
| "fl_add (Fin a) (Fin b) = Fin (a + b)"
| "fl_add PInf NInf = NaN"
| "fl_add NInf PInf = NaN"
| "fl_add PInf _ = PInf"
| "fl_add _ PInf = PInf"
| "fl_add NInf _ = NInf"
| "fl_add _ NInf = NInf"

definition fl_sub :: "fl \<Rightarrow> fl \<Rightarrow> fl" where
  "fl_sub a b = fl_add a (fl_neg b)"

fun fl_sign :: "fl \<Rightarrow> int" where
  "fl_sign (Fin a) = (if a > 0 then 1 else if a < 0 then - 1 else 0)"
| "fl_sign PInf = 1"
| "fl_sign NInf = - 1"
| "fl_sign NaN = 0"

fun fl_mul :: "fl \<Rightarrow> fl \<Rightarrow> fl" where
  "fl_mul NaN _ = NaN"
| "fl_mul _ NaN = NaN"
| "fl_mul (Fin a) (Fin b) = Fin (a * b)"
| "fl_mul a b =
     (let s = fl_sign a * fl_sign b in if s = 0 then NaN else if s > 0 then PInf else NInf)"

text \<open>numpy's division: a zero divisor gives an infinity, or \<^verbatim>\<open>NaN\<close> for \<^verbatim>\<open>0 / 0\<close>.\<close>

fun fl_div :: "fl \<Rightarrow> fl \<Rightarrow> fl" where
  "fl_div NaN _ = NaN"
| "fl_div _ NaN = NaN"
| "fl_div (Fin a) (Fin b) =
     (if b \<noteq> 0 then Fin (a / b) else if a > 0 then PInf else if a < 0 then NInf else NaN)"
| "fl_div (Fin a) _ = Fin 0"
| "fl_div PInf (Fin b) = (if b \<ge> 0 then PInf else NInf)"
| "fl_div NInf (Fin b) = (if b \<ge> 0 then NInf else PInf)"
| "fl_div _ _ = NaN"

text \<open>Python's division of floats: \<^verbatim>\<open>ZeroDivisionError\<close> on a zero divisor.\<close>

definition py_div :: "fl \<Rightarrow> fl \<Rightarrow> error + fl" where
  "py_div a b = (if b = Fin 0 then Inl ZeroDivisionError else Inr (fl_div a b))"

fun fl_sqrt :: "fl \<Rightarrow> fl" where
  "fl_sqrt (Fin a) = (if a \<ge> 0 then Fin (sqrt a) else NaN)"
| "fl_sqrt PInf = PInf"
| "fl_sqrt _ = NaN"

text \<open>Comparisons: every comparison with \<^verbatim>\<open>NaN\<close> is false.\<close>

fun fl_less :: "fl \<Rightarrow> fl \<Rightarrow> bool" where
  "fl_less NaN _ = False"
| "fl_less _ NaN = False"
| "fl_less (Fin a) (Fin b) = (a < b)"
| "fl_less _ NInf = False"
| "fl_less PInf _ = False"
| "fl_less _ _ = True"

definition fl_le :: "fl \<Rightarrow> fl \<Rightarrow> bool" where
  "fl_le a b = (fl_less a b \<or> (a = b \<and> a \<noteq> NaN))"

text \<open>
  Truth value of a float: only zero is false, so \<^verbatim>\<open>NaN\<close> is true. \<^verbatim>\<open>x or 0.0\<close> is \<open>or_zero\<close>.
\<close>

definition truthy :: "fl \<Rightarrow> bool" where
  "truthy x = (x \<noteq> Fin 0)"

definition or_zero :: "fl \<Rightarrow> fl" where
  "or_zero x = (if truthy x then x else Fin 0)"

text \<open>
  \<^verbatim>\<open>round(x, ndigits)\<close> rounds to the nearest multiple of a power of ten, ties to even, and
  returns \<^verbatim>\<open>NaN\<close> and the infinities as they are. Here it rounds the exact real; Python rounds
  the binary double that stands for it, so the two differ where the real lies on a tie that
  the double misses: (41070 - 40000) / 40000 * 100 is 2.675 and rounds to 2.68 here, while the
  double is just below 2.675 and Python returns 2.67. The theorems below use \<open>py_round\<close> only at
  values that both round alike. \<^verbatim>\<open>int(x)\<close> truncates towards zero and raises on \<^verbatim>\<open>NaN\<close> and
  the infinities.
\<close>

definition round_half_even :: "real \<Rightarrow> int" where
  "round_half_even y =
     (let f = \<lfloor>y\<rfloor>; d = y - of_int f in
      if d < 1 / 2 then f else if d > 1 / 2 then f + 1 else if even f then f else f + 1)"

definition py_round :: "nat \<Rightarrow> fl \<Rightarrow> fl" where
  "py_round ndigits x =
     (case x of
        Fin v \<Rightarrow> Fin (of_int (round_half_even (v * 10 ^ ndigits)) / 10 ^ ndigits)
      | _ \<Rightarrow> x)"

definition py_int :: "fl \<Rightarrow> error + int" where
  "py_int x =
     (case x of
        Fin v \<Rightarrow> Inr (if v \<ge> 0 then \<lfloor>v\<rfloor> else \<lceil>v\<rceil>)
      | NaN \<Rightarrow> Inl NaNToInteger
      | _ \<Rightarrow> Inl InfinityToInteger)"

section \<open>Series statistics\<close>

text \<open>
  \<^verbatim>\<open>Series.mean\<close> and \<^verbatim>\<open>Series.std\<close> with \<^verbatim>\<open>skipna=True\<close>: the \<^verbatim>\<open>NaN\<close> entries are left out; the
  mean of no value is \<^verbatim>\<open>NaN\<close>, and so is the sample standard deviation (\<^verbatim>\<open>ddof=1\<close>) of fewer
  than two values.
\<close>

definition dropna :: "fl list \<Rightarrow> fl list" where
  "dropna xs = filter (\<lambda>x. \<not> is_nan x) xs"

definition fl_sum :: "fl list \<Rightarrow> fl" where
  "fl_sum xs = foldl fl_add (Fin 0) xs"

definition mean_skipna :: "fl list \<Rightarrow> fl" where
  "mean_skipna xs =
     (let vs = dropna xs in
      if vs = [] then NaN else fl_div (fl_sum vs) (Fin (real (length vs))))"

definition std_skipna :: "fl list \<Rightarrow> fl" where
  "std_skipna xs =
     (let vs = dropna xs; n = length vs in
      if n \<le> 1 then NaN
      else
        let avg = fl_div (fl_sum vs) (Fin (real n));
            sqr = map (\<lambda>v. fl_mul (fl_sub avg v) (fl_sub avg v)) vs
        in fl_sqrt (fl_div (fl_sum sqr) (Fin (real n - 1))))"

text \<open>
  \<^verbatim>\<open>Series.pct_change()\<close>: the change of each entry relative to the one before, the first one
  undefined. Whether missing values are first filled forward (\<^verbatim>\<open>fill_method="pad"\<close>, the default
  before pandas 3) is the parameter \<open>pad\<close>.
\<close>

fun ffill_from :: "fl \<Rightarrow> fl list \<Rightarrow> fl list" where
  "ffill_from prev [] = []"
| "ffill_from prev (x # xs) =
     (if is_nan x then prev # ffill_from prev xs else x # ffill_from x xs)"

definition pct_change :: "bool \<Rightarrow> fl list \<Rightarrow> fl list" where
  "pct_change pad close =
     (let data = (if pad then ffill_from NaN close else close) in
      case data of
        [] \<Rightarrow> []
      | _ # later \<Rightarrow> NaN # map2 (\<lambda>cur prev. fl_sub (fl_div cur prev) (Fin 1)) later data)"

text \<open>
  \<^verbatim>\<open>np.polyfit(x, y, 1)[0]\<close>: the slope of the least-squares line. Where the fit is not
  determined (all \<open>x\<close> equal) or a \<open>y\<close> is not finite, what numpy returns or raises is the
  parameter \<open>irregular\<close>.
\<close>

definition mean_real :: "real list \<Rightarrow> real" where
  "mean_real xs = sum_list xs / real (length xs)"

definition sxx :: "real list \<Rightarrow> real" where
  "sxx xs = sum_list (map (\<lambda>x. (x - mean_real xs) * (x - mean_real xs)) xs)"

definition sxy :: "real list \<Rightarrow> real list \<Rightarrow> real" where
  "sxy xs ys = sum_list (map2 (\<lambda>x y. (x - mean_real xs) * (y - mean_real ys)) xs ys)"

definition polyfit_slope ::
  "(real list \<Rightarrow> fl list \<Rightarrow> error + fl) \<Rightarrow> real list \<Rightarrow> fl list \<Rightarrow> error + fl" where
  "polyfit_slope irregular xs ys =
     (if list_all is_finite ys \<and> sxx xs \<noteq> 0
      then Inr (Fin (sxy xs (map fin_val ys) / sxx xs))
      else irregular xs ys)"

section \<open>Insight generator\<close>

text \<open>
  A price frame, as the generator reads it: where the dates are (a \<^verbatim>\<open>Date\<close> column, an index
  named \<^verbatim>\<open>Date\<close>, or neither), whether there is a \<^verbatim>\<open>Volume\<close> and a \<^verbatim>\<open>daily_return\<close> column, and
  the rows. The dates are timestamps (no \<^verbatim>\<open>NaT\<close>), \<^verbatim>\<open>Close\<close> is there and is numeric. A field of
  a row whose column the frame lacks carries no meaning.
\<close>

datatype date_source = DateColumn | DateIndex | NoDate

record price_row =
  Date :: timestamp
  Close :: fl
  Volume :: fl
  daily_return :: fl

record price_frame =
  date_in :: date_source
  has_volume :: bool
  has_daily_return :: bool
  rows :: "price_row list"

text \<open>
  What the source leaves to its libraries: numpy's \<^verbatim>\<open>argsort\<close> behind \<^verbatim>\<open>sort_values\<close>, the fill
  default of \<^verbatim>\<open>pct_change\<close>, and \<^verbatim>\<open>np.polyfit\<close> on irregular input.
\<close>

record pandas_lib =
  np_argsort :: "timestamp list \<Rightarrow> nat list"
  pct_pad :: bool
  polyfit_irregular :: "real list \<Rightarrow> fl list \<Rightarrow> error + fl"

text \<open>
  Frames are objects: the store is the list of the frames allocated so far, a reference is a
  position in it. \<^verbatim>\<open>df.copy()\<close>, \<^verbatim>\<open>reset_index()\<close> and \<^verbatim>\<open>sort_values()\<close> allocate a new frame;
  the assignments \<^verbatim>\<open>df["Date"] = ...\<close> and \<^verbatim>\<open>df["daily_return"] = ...\<close> change a frame in place.
\<close>

type_synonym ref = nat
type_synonym store = "price_frame list"

definition df_copy :: "ref \<Rightarrow> store \<Rightarrow> ref \<times> store" where
  "df_copy r h = (length h, h @ [h ! r])"

definition reset_index :: "ref \<Rightarrow> store \<Rightarrow> ref \<times> store" where
  "reset_index r h = (length h, h @ [(h ! r)\<lparr>date_in := DateColumn\<rparr>])"

definition set_Date :: "ref \<Rightarrow> timestamp list \<Rightarrow> store \<Rightarrow> store" where
  "set_Date r ds h =
     h[r := (h ! r)\<lparr>rows := map2 (\<lambda>row d. row\<lparr>Date := d\<rparr>) (rows (h ! r)) ds\<rparr>]"

definition sort_values :: "pandas_lib \<Rightarrow> ref \<Rightarrow> store \<Rightarrow> ref \<times> store" where
  "sort_values lib r h =
     (length h,
      h @ [(h ! r)\<lparr>rows := map ((!) (rows (h ! r)))
                      (nargsort (np_argsort lib) (map (\<lambda>row. Some (Date row)) (rows (h ! r))))\<rparr>])"

definition set_daily_return :: "ref \<Rightarrow> fl list \<Rightarrow> store \<Rightarrow> store" where
  "set_daily_return r vs h =
     h[r := (h ! r)\<lparr>has_daily_return := True,
                    rows := map2 (\<lambda>row v. row\<lparr>daily_return := v\<rparr>) (rows (h ! r)) vs\<rparr>]"

text \<open>
  Lines 138 to 149 of \<^verbatim>\<open>generate_insights_from_history\<close>: the copy is made, the dates are
  found, converted and sorted, the returns are added as a column.
  \<^verbatim>\<open>
      df_augmented = df.copy()
      if "Date" not in df_augmented.columns:
          if df_augmented.index.name == "Date":
              df_augmented = df_augmented.reset_index()
          else:
              raise ValueError("Historical data must contain a 'Date' column.")
      df_augmented["Date"] = pd.to_datetime(df_augmented["Date"])
      df_augmented = df_augmented.sort_values("Date")
      close = df_augmented["Close"].astype(float)
      df_augmented["daily_return"] = close.pct_change()
  \<close>
\<close>

definition augment :: "pandas_lib \<Rightarrow> ref \<Rightarrow> store \<Rightarrow> (error + ref) \<times> store" where
  "augment lib df h =
     (let (df_augmented, h) = df_copy df h in
      case (if date_in (h ! df_augmented) \<noteq> DateColumn
            then (if date_in (h ! df_augmented) = DateIndex
                  then Inr (reset_index df_augmented h)
                  else Inl MissingDateColumn)
            else Inr (df_augmented, h)) of
        Inl e \<Rightarrow> (Inl e, h)
      | Inr (df_augmented, h) \<Rightarrow>
          let h = set_Date df_augmented (map Date (rows (h ! df_augmented))) h;
              (df_augmented, h) = sort_values lib df_augmented h;
              close = map Close (rows (h ! df_augmented));
              h = set_daily_return df_augmented (pct_change (pct_pad lib) close) h
          in (Inr df_augmented, h))"

text \<open>
  The report: the dictionary the generator returns. The two ends of \<^verbatim>\<open>date_range\<close> are kept as
  the ordinals of the two calendar dates, their rendering as ISO strings left out.
\<close>

record insight_report =
  symbol :: string
  date_range_start :: int
  date_range_end :: int
  latest_close :: fl
  percent_change :: fl
  trend_direction :: string
  volatility_profile :: string
  volatility :: fl
  average_daily_return :: fl
  average_volume :: "int option"
  moving_average_20 :: fl
  momentum_slope :: fl
  recommendation :: string

definition TREND_SLOPE_THRESHOLD :: fl where
  "TREND_SLOPE_THRESHOLD = Fin (1 / 100)"

text \<open>
  Lines 151 and 152.
  \<^verbatim>\<open>
      avg_return = float(close.pct_change().mean(skipna=True) or 0.0)
      volatility = float(df_augmented["daily_return"].std(skipna=True) or 0.0)
  \<close>
\<close>

definition avg_return_of :: "bool \<Rightarrow> fl list \<Rightarrow> fl" where
  "avg_return_of pad close = or_zero (mean_skipna (pct_change pad close))"

definition volatility_of :: "price_frame \<Rightarrow> fl" where
  "volatility_of df_augmented = or_zero (std_skipna (map daily_return (rows df_augmented)))"

text \<open>
  Lines 154 to 156; \<open>close\<close> is not empty here.
  \<^verbatim>\<open>
      latest_close = float(close.iloc[-1])
      first_close = float(close.iloc[0]) if not pd.isna(close.iloc[0]) else latest_close
      percent_change = ((latest_close - first_close) / first_close * 100) if first_close else 0.0
  \<close>
\<close>

definition first_close_of :: "fl list \<Rightarrow> fl" where
  "first_close_of close = (if \<not> is_nan (hd close) then hd close else last close)"

definition percent_change_of :: "fl \<Rightarrow> fl \<Rightarrow> error + fl" where
  "percent_change_of latest first =
     (if truthy first
      then (case py_div (fl_sub latest first) first of
              Inl e \<Rightarrow> Inl e
            | Inr q \<Rightarrow> Inr (fl_mul q (Fin 100)))
      else Inr (Fin 0))"

text \<open>
  Lines 158 to 168.
  \<^verbatim>\<open>
      valid_data = df_augmented.dropna(subset=["Close"])
      trend_direction = "flat"
      slope_value = 0.0
      if len(valid_data) >= 2:
          x_values = valid_data["Date"].map(datetime.toordinal).astype(float)
          y_values = valid_data["Close"].astype(float)
          slope_value = float(np.polyfit(x_values, y_values, 1)[0])
          if slope_value > TREND_SLOPE_THRESHOLD:
              trend_direction = "upward"
          elif slope_value < -TREND_SLOPE_THRESHOLD:
              trend_direction = "downward"
  \<close>
\<close>

definition valid_rows :: "price_frame \<Rightarrow> price_row list" where
  "valid_rows df_augmented = filter (\<lambda>row. \<not> is_nan (Close row)) (rows df_augmented)"

definition slope_of :: "pandas_lib \<Rightarrow> price_row list \<Rightarrow> error + fl" where
  "slope_of lib valid_data =
     (if length valid_data \<ge> 2
      then polyfit_slope (polyfit_irregular lib)
             (map (\<lambda>row. real_of_int (toordinal (Date row))) valid_data)
             (map Close valid_data)
      else Inr (Fin 0))"

definition trend_of :: "price_row list \<Rightarrow> fl \<Rightarrow> string" where
  "trend_of valid_data slope_value =
     (if length valid_data \<ge> 2
      then (if fl_less TREND_SLOPE_THRESHOLD slope_value then ''upward''
            else if fl_less slope_value (fl_neg TREND_SLOPE_THRESHOLD) then ''downward''
            else ''flat'')
      else ''flat'')"

text \<open>
  Lines 170 and 171.
  \<^verbatim>\<open>
      avg_volume = int(valid_data["Volume"].mean()) if "Volume" in valid_data else None
      moving_average_20 = float(close.tail(20).mean())
  \<close>
\<close>

definition avg_volume_of :: "price_frame \<Rightarrow> price_row list \<Rightarrow> error + int option" where
  "avg_volume_of df_augmented valid_data =
     (if has_volume df_augmented
      then (case py_int (mean_skipna (map Volume valid_data)) of
              Inl e \<Rightarrow> Inl e
            | Inr n \<Rightarrow> Inr (Some n))
      else Inr None)"

definition moving_average_of :: "fl list \<Rightarrow> fl" where
  "moving_average_of close = mean_skipna (drop (length close - 20) close)"

text \<open>Lines 173 to 183.\<close>

definition recommendation_of :: "string \<Rightarrow> fl \<Rightarrow> string" where
  "recommendation_of trend avg_return =
     (if trend = ''upward'' \<and> fl_le (Fin 0) avg_return
      then ''Bullish momentum; consider accumulation with risk controls.''
      else if trend = ''downward'' \<and> fl_le avg_return (Fin 0)
      then ''Bearish momentum; prefer defensive posture.''
      else ''Neutral momentum; continue observing.'')"

definition volatility_profile_of :: "fl \<Rightarrow> string" where
  "volatility_profile_of vol =
     (if fl_less (Fin (3 / 100)) vol then ''high''
      else if fl_less (Fin (15 / 1000)) vol then ''moderate''
      else ''low'')"

text \<open>
  Lines 151 to 201, on the augmented frame, in the order of the source: \<^verbatim>\<open>close.iloc[-1]\<close>
  raises on an empty series before anything else can, then the division, the fit, and the
  conversion of the mean volume to an integer.
\<close>

definition insights :: "pandas_lib \<Rightarrow> string \<Rightarrow> price_frame \<Rightarrow> error + insight_report" where
  "insights lib ticker df_augmented =
     (let close = map Close (rows df_augmented);
          avg_return = avg_return_of (pct_pad lib) close;
          vol = volatility_of df_augmented
      in
        if close = [] then Inl IndexError
        else
          let latest = last close;
              first = first_close_of close
          in
            case percent_change_of latest first of
              Inl e \<Rightarrow> Inl e
            | Inr pc \<Rightarrow>
                let valid_data = valid_rows df_augmented in
                case slope_of lib valid_data of
                  Inl e \<Rightarrow> Inl e
                | Inr slope_value \<Rightarrow>
                    let trend = trend_of valid_data slope_value in
                    case avg_volume_of df_augmented valid_data of
                      Inl e \<Rightarrow> Inl e
                    | Inr avg_volume \<Rightarrow>
                        Inr \<lparr>symbol = ticker,
                             date_range_start = toordinal (Date (hd (rows df_augmented))),
                             date_range_end = toordinal (Date (last (rows df_augmented))),
                             latest_close = latest,
                             percent_change = py_round 2 pc,
                             trend_direction = trend,
                             volatility_profile = volatility_profile_of vol,
                             volatility = py_round 4 vol,
                             average_daily_return = py_round 4 avg_return,
                             average_volume = avg_volume,
                             moving_average_20 = py_round 4 (moving_average_of close),
                             momentum_slope = py_round 6 slope_value,
                             recommendation = recommendation_of trend avg_return\<rparr>)"

text \<open>
  The whole call: the argument is a reference into the store; the result is the report, or
  the exception, and the store the call leaves behind.
\<close>

definition generate_insights_from_history ::
  "pandas_lib \<Rightarrow> string \<Rightarrow> ref \<Rightarrow> store \<Rightarrow> (error + insight_report) \<times> store" where
  "generate_insights_from_history lib ticker df h =
     (if \<not> df < length h then (Inl InvalidReference, h)
      else
        (case augment lib df h of
           (Inl e, h') \<Rightarrow> (Inl e, h')
         | (Inr df_augmented, h') \<Rightarrow> (insights lib ticker (h' ! df_augmented), h')))"

text \<open>Frames and a library instance for concrete inputs.\<close>

definition day :: "int \<Rightarrow> timestamp" where
  "day n = n * us_per_day"

definition price :: "int \<Rightarrow> fl \<Rightarrow> price_row" where
  "price n c = \<lparr>Date = day n, Close = c, Volume = NaN, daily_return = NaN\<rparr>"

definition price_vol :: "int \<Rightarrow> fl \<Rightarrow> fl \<Rightarrow> price_row" where
  "price_vol n c v = \<lparr>Date = day n, Close = c, Volume = v, daily_return = NaN\<rparr>"

definition series :: "price_row list \<Rightarrow> price_frame" where
  "series rs = \<lparr>date_in = DateColumn, has_volume = False, has_daily_return = False, rows = rs\<rparr>"

definition series_vol :: "price_row list \<Rightarrow> price_frame" where
  "series_vol rs = \<lparr>date_in = DateColumn, has_volume = True, has_daily_return = False, rows = rs\<rparr>"

definition stable_lib :: "bool \<Rightarrow> (real list \<Rightarrow> fl list \<Rightarrow> error + fl) \<Rightarrow> pandas_lib" where
  "stable_lib pad irregular =
     \<lparr>np_argsort = stable_argsort, pct_pad = pad, polyfit_irregular = irregular\<rparr>"

text \<open>
  The rows of a frame in the order \<^verbatim>\<open>sort_values("Date")\<close> gives them, and the augmented frame
  the generator computes its report from: the rows by date, each with its return.
\<close>

definition by_date :: "pandas_lib \<Rightarrow> price_frame \<Rightarrow> price_row list" where
  "by_date lib f =
     map ((!) (rows f)) (nargsort (np_argsort lib) (map (\<lambda>row. Some (Date row)) (rows f)))"

definition augmented :: "pandas_lib \<Rightarrow> price_frame \<Rightarrow> price_frame" where
  "augmented lib f =
     \<lparr>date_in = DateColumn, has_volume = has_volume f, has_daily_return = True,
      rows = map2 (\<lambda>row v. row\<lparr>daily_return := v\<rparr>) (by_date lib f)
               (pct_change (pct_pad lib) (map Close (by_date lib f)))\<rparr>"

section \<open>Theorems\<close>

subsection \<open>Symbol normalizer\<close>

lemma strip_upper_aapl: "upper (strip ''  aapl '') = ''AAPL''"
  by code_simp

lemma strip_upper_blank: "upper (strip ''   '') = []"
  by code_simp

lemma normalize_symbol_examples:
  "normalize_symbol None = Inl InvalidSymbol"
  "normalize_symbol (Some []) = Inl InvalidSymbol"
  "normalize_symbol (Some ''  aapl '') = Inr ''AAPL''"
  by (simp_all add: normalize_symbol_def str_truthy_def strip_upper_aapl)

text \<open>
  C6 says that a symbol made of white space only fails with \<open>InvalidSymbol\<close>. The guard
  \<^verbatim>\<open>if not symbol\<close> looks at the string before it is stripped, so a string of three blanks
  passes it and the normalizer returns the empty symbol.
\<close>

theorem normalize_symbol_blank_accepted:
  "normalize_symbol (Some ''   '') = Inr []"
  by (simp add: normalize_symbol_def str_truthy_def strip_upper_blank)

subsection \<open>Date range resolver\<close>











subsection \<open>Payload normalization\<close>














lemma argsort_ok_mset: "argsort_ok argsort \<Longrightarrow> mset (argsort ks) = mset [0..<length ks]"
  by (simp add: argsort_ok_def)

lemma argsort_ok_sorted: "argsort_ok argsort \<Longrightarrow> sorted (map ((!) ks) (argsort ks))"
  by (simp add: argsort_ok_def)

lemma argsort_ok_set: "argsort_ok argsort \<Longrightarrow> set (argsort ks) = {0..<length ks}"
  using argsort_ok_mset [of argsort ks] by (metis mset_eq_setD set_upt)

lemma mset_take_positions:
  assumes "mset p = mset [0..<length xs]"
  shows "mset (map ((!) xs) p) = mset xs"
proof -
  have "mset (map ((!) xs) p) = image_mset ((!) xs) (mset p)" by simp
  also have "\<dots> = mset (map ((!) xs) [0..<length xs])" by (simp add: assms)
  also have "\<dots> = mset xs" by (simp add: map_nth)
  finally show ?thesis .
qed

lemma mset_filter_split: "mset (filter P xs) + mset (filter (\<lambda>x. \<not> P x) xs) = mset xs"
  by (induction xs) auto

lemma nargsort_mset:
  assumes "argsort_ok argsort"
  shows "mset (nargsort argsort items) = mset [0..<length items]"
proof -
  define nn where "nn = filter (\<lambda>i. items ! i \<noteq> None) [0..<length items]"
  define na where "na = filter (\<lambda>i. items ! i = None) [0..<length items]"
  define vs where "vs = map (\<lambda>i. the (items ! i)) nn"
  have "mset (argsort vs) = mset [0..<length nn]"
    using argsort_ok_mset [OF assms, of vs] by (simp add: vs_def)
  then have "mset (map ((!) nn) (argsort vs)) = mset nn"
    by (rule mset_take_positions)
  moreover have "mset nn + mset na = mset [0..<length items]"
    using mset_filter_split [of "\<lambda>i. items ! i \<noteq> None" "[0..<length items]"]
    by (simp only: nn_def na_def not_not)
  ultimately show ?thesis
    by (simp add: nargsort_def Let_def nn_def na_def vs_def)
qed


lemma dates_ascending_nones: "\<forall>n \<in> set ns. n = None \<Longrightarrow> dates_ascending ns"
  by (induction ns rule: dates_ascending.induct) auto

lemma dates_ascending_somes_nones:
  "sorted xs \<Longrightarrow> \<forall>n \<in> set ns. n = None \<Longrightarrow> dates_ascending (map Some xs @ ns)"
proof (induction xs)
  case Nil
  then show ?case by (simp add: dates_ascending_nones)
next
  case (Cons a xs)
  show ?case
  proof (cases xs)
    case Nil
    with Cons.prems show ?thesis
      by (cases ns) (auto simp: dates_ascending_nones)
  next
    case (Cons b ys)
    with Cons.IH Cons.prems show ?thesis by auto
  qed
qed

lemma nargsort_keys:
  assumes "argsort_ok argsort"
  shows "dates_ascending (map ((!) items) (nargsort argsort items))"
proof -
  define nn where "nn = filter (\<lambda>i. items ! i \<noteq> None) [0..<length items]"
  define na where "na = filter (\<lambda>i. items ! i = None) [0..<length items]"
  define vs where "vs = map (\<lambda>i. the (items ! i)) nn"
  have len: "length vs = length nn" by (simp add: vs_def)
  have "map ((!) items) (map ((!) nn) (argsort vs)) = map Some (map ((!) vs) (argsort vs))"
  proof (simp, intro ballI)
    fix j assume "j \<in> set (argsort vs)"
    then have j: "j < length nn"
      using argsort_ok_set [OF assms, of vs] len by simp
    then have "nn ! j \<in> set nn" by simp
    then have "items ! (nn ! j) \<noteq> None" by (simp add: nn_def)
    with j show "items ! (nn ! j) = Some (vs ! j)" by (auto simp: vs_def)
  qed
  moreover have "\<forall>n \<in> set (map ((!) items) na). n = None"
    by (simp add: na_def)
  ultimately have "dates_ascending (map ((!) items) (map ((!) nn) (argsort vs)) @ map ((!) items) na)"
    using dates_ascending_somes_nones [OF argsort_ok_sorted [OF assms, of vs],
        of "map ((!) items) na"]
    by (simp only:)
  then show ?thesis
    by (simp add: nargsort_def Let_def nn_def na_def vs_def)
qed






lemma nargsort_set:
  assumes "argsort_ok argsort"
  shows "set (nargsort argsort items) = {0..<length items}"
  using nargsort_mset [OF assms, of items] by (metis mset_eq_setD set_upt)

































subsection \<open>Insight generator\<close>

lemma set_Date_same:
  "map2 (\<lambda>row d. row\<lparr>Date := d\<rparr>) rs (map Date rs) = rs"
  by (induction rs) auto

lemma augment_NoDate:
  "date_in (h ! df) = NoDate \<Longrightarrow> df < length h \<Longrightarrow>
     augment lib df h = (Inl MissingDateColumn, h @ [h ! df])"
  by (simp add: augment_def df_copy_def)

lemma augment_Date:
  assumes "date_in (h ! df) \<noteq> NoDate" "df < length h"
  shows "\<exists>k h'. augment lib df h = (Inr k, h') \<and> k < length h' \<and> h' ! k = augmented lib (h ! df)
           \<and> take (length h) h' = h"
proof (cases "date_in (h ! df)")
  case DateColumn
  then show ?thesis
    using assms(2)
    by (simp add: augment_def df_copy_def set_Date_def sort_values_def set_daily_return_def
        Let_def set_Date_same nth_append augmented_def by_date_def)
next
  case DateIndex
  then show ?thesis
    using assms(2)
    by (simp add: augment_def df_copy_def reset_index_def set_Date_def sort_values_def
        set_daily_return_def Let_def set_Date_same nth_append augmented_def by_date_def)
next
  case NoDate
  with assms(1) show ?thesis by simp
qed


lemma generate_fst:
  assumes "df < length h"
  shows "fst (generate_insights_from_history lib ticker df h)
         = (if date_in (h ! df) = NoDate then Inl MissingDateColumn
            else insights lib ticker (augmented lib (h ! df)))"
proof (cases "date_in (h ! df) = NoDate")
  case True
  with assms show ?thesis
    by (simp add: generate_insights_from_history_def augment_NoDate)
next
  case False
  from augment_Date [OF False assms, of lib] obtain k h' where
    "augment lib df h = (Inr k, h')" "h' ! k = augmented lib (h ! df)"
    by blast
  with False assms show ?thesis
    by (simp add: generate_insights_from_history_def)
qed

lemma generate_snd:
  "take (length h) (snd (generate_insights_from_history lib ticker df h)) = h"
proof (cases "df < length h")
  case False
  then show ?thesis by (simp add: generate_insights_from_history_def)
next
  case True
  show ?thesis
  proof (cases "date_in (h ! df) = NoDate")
    case True
    with \<open>df < length h\<close> show ?thesis
      by (simp add: generate_insights_from_history_def augment_NoDate)
  next
    case False
    from augment_Date [OF False True, of lib] obtain k h' where
      "augment lib df h = (Inr k, h')" "take (length h) h' = h"
      by blast
    with True show ?thesis
      by (simp add: generate_insights_from_history_def)
  qed
qed


text \<open>
  C9: calling the generator a second time on the same symbol and frame, in the store the first
  call has left, yields the same report (or the same exception) as the first call; and two
  calls on equal frames yield the same result wherever the frames live in their stores.
\<close>

theorem generate_insights_twice:
  "fst (generate_insights_from_history lib ticker df
          (snd (generate_insights_from_history lib ticker df h)))
   = fst (generate_insights_from_history lib ticker df h)
   \<and> (df < length h \<and> df' < length h' \<and> h ! df = h' ! df'
      \<longrightarrow> fst (generate_insights_from_history lib ticker df h)
          = fst (generate_insights_from_history lib ticker df' h'))"
proof (intro conjI impI)
  show "fst (generate_insights_from_history lib ticker df
          (snd (generate_insights_from_history lib ticker df h)))
   = fst (generate_insights_from_history lib ticker df h)"
  proof (cases "df < length h")
    case False
    then show ?thesis by (simp add: generate_insights_from_history_def)
  next
    case True
    define k where "k = snd (generate_insights_from_history lib ticker df h)"
    have t: "take (length h) k = h" unfolding k_def by (rule generate_snd)
    then have len: "length h \<le> length k"
      by (metis length_take min.cobounded1 min.commute)
    with True have d: "df < length k" by simp
    have same: "k ! df = h ! df"
      using arg_cong [OF t, of "\<lambda>l. l ! df"] True by simp
    show ?thesis
      unfolding k_def [symmetric] generate_fst [OF d] generate_fst [OF True] same ..
  qed
next
  assume "df < length h \<and> df' < length h' \<and> h ! df = h' ! df'"
  then show "fst (generate_insights_from_history lib ticker df h)
          = fst (generate_insights_from_history lib ticker df' h')"
    by (simp add: generate_fst)
qed

lemma stable_argsort_one: "stable_argsort [a] = [0]"
  by (simp add: stable_argsort_def)

lemma stable_argsort_two: "a \<le> b \<Longrightarrow> stable_argsort [a, b] = [0, 1]"
  by (simp add: stable_argsort_def upt_rec)


lemma nargsort_one: "nargsort stable_argsort [Some a] = [0]"
  by (simp add: nargsort_def stable_argsort_one)

lemma nargsort_two: "a \<le> b \<Longrightarrow> nargsort stable_argsort [Some a, Some b] = [0, 1]"
  by (simp add: nargsort_def stable_argsort_two upt_rec)


lemma by_date_one: "by_date (stable_lib pad irr) \<lparr>date_in = s, has_volume = v, has_daily_return = d, rows = [r]\<rparr> = [r]"
  by (simp add: by_date_def stable_lib_def nargsort_one)

lemma by_date_two:
  "Date r1 \<le> Date r2 \<Longrightarrow>
   by_date (stable_lib pad irr) \<lparr>date_in = s, has_volume = v, has_daily_return = d, rows = [r1, r2]\<rparr> = [r1, r2]"
  by (simp add: by_date_def stable_lib_def nargsort_two)


lemma pct_change_one: "pct_change pad [c] = [NaN]"
  by (simp add: pct_change_def is_nan_def)

lemma pct_change_two:
  "pct_change pad [Fin a, Fin b] = [NaN, fl_sub (fl_div (Fin b) (Fin a)) (Fin 1)]"
  by (simp add: pct_change_def is_nan_def)

lemma py_round_nan: "py_round n NaN = NaN"
  by (simp add: py_round_def)

lemma round_half_even_int: "round_half_even (real_of_int m) = m"
  by (simp add: round_half_even_def)

lemma py_round_int: "py_round n (Fin (of_int k)) = Fin (of_int k)"
proof -
  have "round_half_even (real_of_int k * 10 ^ n) = k * 10 ^ n"
    using round_half_even_int [of "k * 10 ^ n"] by simp
  then show ?thesis by (simp add: py_round_def)
qed

lemma py_round_numeral [simp]:
  "py_round n (Fin (numeral w)) = Fin (numeral w)" "py_round n (Fin 0) = Fin 0"
  using py_round_int [of n "numeral w"] py_round_int [of n 0] by simp_all

lemma py_round_tenth: "py_round 4 (Fin (1 / 10)) = Fin (1 / 10)"
proof -
  have "round_half_even (1 / 10 * 10 ^ 4) = 1000"
    using round_half_even_int [of 1000] by simp
  then show ?thesis by (simp add: py_round_def)
qed

text \<open>Away from the ties \<open>py_round\<close> moves to the nearest value of the place asked for.\<close>

lemma py_round_rounds:
  "py_round 2 (Fin (314159 / 100000)) = Fin (314 / 100)"
  "py_round 4 (Fin (- 27182 / 1000000)) = Fin (- 272 / 10000)"
  by (simp_all add: py_round_def round_half_even_def Let_def)


lemmas report_defs =
  insights_def avg_return_of_def volatility_of_def first_close_of_def percent_change_of_def
  valid_rows_def slope_of_def trend_of_def avg_volume_of_def moving_average_of_def
  recommendation_of_def volatility_profile_of_def TREND_SLOPE_THRESHOLD_def

lemmas series_defs =
  mean_skipna_def std_skipna_def dropna_def fl_sum_def is_nan_def or_zero_def truthy_def
  py_div_def py_int_def fl_sub_def fl_le_def

lemma augmented_one:
  "augmented (stable_lib pad irr) \<lparr>date_in = s, has_volume = v, has_daily_return = d, rows = [r]\<rparr>
   = \<lparr>date_in = DateColumn, has_volume = v, has_daily_return = True,
      rows = [r\<lparr>daily_return := NaN\<rparr>]\<rparr>"
  by (simp add: augmented_def by_date_one pct_change_one)

lemma augmented_two:
  "Date r1 \<le> Date r2 \<Longrightarrow> Close r1 = Fin a \<Longrightarrow> Close r2 = Fin b \<Longrightarrow>
   augmented (stable_lib pad irr) \<lparr>date_in = s, has_volume = v, has_daily_return = d, rows = [r1, r2]\<rparr>
   = \<lparr>date_in = DateColumn, has_volume = v, has_daily_return = True,
      rows = [r1\<lparr>daily_return := NaN\<rparr>,
              r2\<lparr>daily_return := fl_sub (fl_div (Fin b) (Fin a)) (Fin 1)\<rparr>]\<rparr>"
  by (simp add: augmented_def by_date_two pct_change_two)

lemma toordinal_day [simp]: "toordinal (day n) = n"
  by (simp add: toordinal_def day_def us_per_day_def)

lemma day_le [simp]: "day m \<le> day n \<longleftrightarrow> m \<le> n"
  by (simp add: day_def us_per_day_def)

text \<open>
  C1 says that a series whose returns are all undefined reports an average daily return of 0.0
  and a volatility of 0.0. The source writes \<^verbatim>\<open>float(... or 0.0)\<close> for that, but \<^verbatim>\<open>NaN\<close> is true
  in Python, so \<^verbatim>\<open>NaN or 0.0\<close> is \<^verbatim>\<open>NaN\<close>: on a series of one row both statistics are reported as
  \<^verbatim>\<open>NaN\<close>.
\<close>

theorem single_row_report_has_nan_statistics:
  "fst (generate_insights_from_history (stable_lib pad irr) ''X'' 0
          [series [price 738886 (Fin 100)]])
   = Inr \<lparr>symbol = ''X'', date_range_start = 738886, date_range_end = 738886,
          latest_close = Fin 100, percent_change = Fin 0, trend_direction = ''flat'',
          volatility_profile = ''low'', volatility = NaN, average_daily_return = NaN,
          average_volume = None, moving_average_20 = Fin 100, momentum_slope = Fin 0,
          recommendation = ''Neutral momentum; continue observing.''\<rparr>"
proof -
  have "insights (stable_lib pad irr) ''X''
          \<lparr>date_in = DateColumn, has_volume = False, has_daily_return = True,
           rows = [(price 738886 (Fin 100))\<lparr>daily_return := NaN\<rparr>]\<rparr>
        = Inr \<lparr>symbol = ''X'', date_range_start = 738886, date_range_end = 738886,
          latest_close = Fin 100, percent_change = Fin 0, trend_direction = ''flat'',
          volatility_profile = ''low'', volatility = NaN, average_daily_return = NaN,
          average_volume = None, moving_average_20 = Fin 100, momentum_slope = Fin 0,
          recommendation = ''Neutral momentum; continue observing.''\<rparr>"
    by (simp add: report_defs series_defs pct_change_one py_round_nan price_def stable_lib_def
        Let_def)
  then show ?thesis
    by (simp add: generate_fst series_def augmented_one)
qed


lemma polyfit_two:
  "polyfit_slope irr [738886, 738887] [Fin a, Fin b] = Inr (Fin (b - a))"
  by (simp add: polyfit_slope_def sxx_def sxy_def mean_real_def field_simps)

text \<open>
  C2 says that a series of identical closes has slope 0.0, trend flat, volatility 0.0 and a low
  volatility profile. On two rows of equal close, one day apart, the slope, the trend and the
  profile are as claimed, but the single return has no sample standard deviation and the
  volatility is reported as \<^verbatim>\<open>NaN\<close>, through the same \<^verbatim>\<open>or 0.0\<close>.
\<close>

theorem identical_closes_report_has_nan_volatility:
  "fst (generate_insights_from_history (stable_lib pad irr) ''X'' 0
          [series [price 738886 (Fin 100), price 738887 (Fin 100)]])
   = Inr \<lparr>symbol = ''X'', date_range_start = 738886, date_range_end = 738887,
          latest_close = Fin 100, percent_change = Fin 0, trend_direction = ''flat'',
          volatility_profile = ''low'', volatility = NaN, average_daily_return = Fin 0,
          average_volume = None, moving_average_20 = Fin 100, momentum_slope = Fin 0,
          recommendation = ''Neutral momentum; continue observing.''\<rparr>"
proof -
  have "insights (stable_lib pad irr) ''X''
          \<lparr>date_in = DateColumn, has_volume = False, has_daily_return = True,
           rows = [(price 738886 (Fin 100))\<lparr>daily_return := NaN\<rparr>,
                   (price 738887 (Fin 100))\<lparr>daily_return :=
                      fl_sub (fl_div (Fin 100) (Fin 100)) (Fin 1)\<rparr>]\<rparr>
        = Inr \<lparr>symbol = ''X'', date_range_start = 738886, date_range_end = 738887,
          latest_close = Fin 100, percent_change = Fin 0, trend_direction = ''flat'',
          volatility_profile = ''low'', volatility = NaN, average_daily_return = Fin 0,
          average_volume = None, moving_average_20 = Fin 100, momentum_slope = Fin 0,
          recommendation = ''Neutral momentum; continue observing.''\<rparr>"
    by (simp add: report_defs series_defs pct_change_two py_round_nan price_def stable_lib_def
        polyfit_two Let_def)
  then show ?thesis
    by (simp add: generate_fst series_def augmented_two [of _ _ 100 100] price_def)
qed


lemma report_two_points:
  "fst (generate_insights_from_history (stable_lib pad irr) ''X'' 0
          [series [price 738886 (Fin 100), price 738887 (Fin 110)]])
   = Inr \<lparr>symbol = ''X'', date_range_start = 738886, date_range_end = 738887,
          latest_close = Fin 110, percent_change = Fin 10, trend_direction = ''upward'',
          volatility_profile = ''low'', volatility = NaN, average_daily_return = Fin (1 / 10),
          average_volume = None, moving_average_20 = Fin 105, momentum_slope = Fin 10,
          recommendation = ''Bullish momentum; consider accumulation with risk controls.''\<rparr>"
proof -
  have "insights (stable_lib pad irr) ''X''
          \<lparr>date_in = DateColumn, has_volume = False, has_daily_return = True,
           rows = [(price 738886 (Fin 100))\<lparr>daily_return := NaN\<rparr>,
                   (price 738887 (Fin 110))\<lparr>daily_return :=
                      fl_sub (fl_div (Fin 110) (Fin 100)) (Fin 1)\<rparr>]\<rparr>
        = Inr \<lparr>symbol = ''X'', date_range_start = 738886, date_range_end = 738887,
          latest_close = Fin 110, percent_change = Fin 10, trend_direction = ''upward'',
          volatility_profile = ''low'', volatility = NaN, average_daily_return = Fin (1 / 10),
          average_volume = None, moving_average_20 = Fin 105, momentum_slope = Fin 10,
          recommendation = ''Bullish momentum; consider accumulation with risk controls.''\<rparr>"
    by (simp add: report_defs series_defs pct_change_two py_round_nan price_def stable_lib_def
        polyfit_two py_round_tenth Let_def)
  then show ?thesis
    by (simp add: generate_fst series_def augmented_two [of _ _ 100 110] price_def)
qed

lemma py_round_inf: "py_round n PInf = PInf" "py_round n NInf = NInf"
  by (simp_all add: py_round_def)

lemma report_zero_first_close:
  "fst (generate_insights_from_history (stable_lib pad irr) ''X'' 0
          [series [price 738886 (Fin 0), price 738887 (Fin 110)]])
   = Inr \<lparr>symbol = ''X'', date_range_start = 738886, date_range_end = 738887,
          latest_close = Fin 110, percent_change = Fin 0, trend_direction = ''upward'',
          volatility_profile = ''low'', volatility = NaN, average_daily_return = PInf,
          average_volume = None, moving_average_20 = Fin 55, momentum_slope = Fin 110,
          recommendation = ''Bullish momentum; consider accumulation with risk controls.''\<rparr>"
proof -
  have "insights (stable_lib pad irr) ''X''
          \<lparr>date_in = DateColumn, has_volume = False, has_daily_return = True,
           rows = [(price 738886 (Fin 0))\<lparr>daily_return := NaN\<rparr>,
                   (price 738887 (Fin 110))\<lparr>daily_return :=
                      fl_sub (fl_div (Fin 110) (Fin 0)) (Fin 1)\<rparr>]\<rparr>
        = Inr \<lparr>symbol = ''X'', date_range_start = 738886, date_range_end = 738887,
          latest_close = Fin 110, percent_change = Fin 0, trend_direction = ''upward'',
          volatility_profile = ''low'', volatility = NaN, average_daily_return = PInf,
          average_volume = None, moving_average_20 = Fin 55, momentum_slope = Fin 110,
          recommendation = ''Bullish momentum; consider accumulation with risk controls.''\<rparr>"
    by (simp add: report_defs series_defs pct_change_two py_round_nan price_def stable_lib_def
        polyfit_two py_round_inf Let_def)
  then show ?thesis
    by (simp add: generate_fst series_def augmented_two [of _ _ 0 110] price_def)
qed

text \<open>
  C8 says that the average volume is the truncated mean of \<^verbatim>\<open>Volume\<close> over the rows with a
  defined close, also when the volumes are undefined. Where no such row has a volume the mean
  is \<^verbatim>\<open>NaN\<close> and \<^verbatim>\<open>int\<close> raises: the call returns no report.
\<close>

theorem undefined_volume_raises:
  "fst (generate_insights_from_history (stable_lib pad irr) ''X'' 0
          [series_vol [price_vol 738886 (Fin 100) NaN, price_vol 738887 NaN (Fin 5)]])
   = Inl NaNToInteger"
proof -
  define f where "f = series_vol [price_vol 738886 (Fin 100) NaN, price_vol 738887 NaN (Fin 5)]"
  have b: "by_date (stable_lib pad irr) f
           = [price_vol 738886 (Fin 100) NaN, price_vol 738887 NaN (Fin 5)]"
    by (simp add: f_def series_vol_def by_date_two price_vol_def)
  have p: "pct_change pad [Fin 100, NaN] = [NaN, if pad then Fin 0 else NaN]"
    by (simp add: pct_change_def is_nan_def fl_sub_def)
  have a: "augmented (stable_lib pad irr) f
           = \<lparr>date_in = DateColumn, has_volume = True, has_daily_return = True,
              rows = [\<lparr>Date = day 738886, Close = Fin 100, Volume = NaN, daily_return = NaN\<rparr>,
                      \<lparr>Date = day 738887, Close = NaN, Volume = Fin 5,
                        daily_return = (if pad then Fin 0 else NaN)\<rparr>]\<rparr>"
    unfolding augmented_def b
    by (simp add: price_vol_def p stable_lib_def f_def series_vol_def)
  have v: "avg_volume_of \<lparr>date_in = DateColumn, has_volume = True, has_daily_return = True,
              rows = rs\<rparr>
              [\<lparr>Date = day 738886, Close = Fin 100, Volume = NaN, daily_return = NaN\<rparr>]
           = Inl NaNToInteger" for rs
    by (simp add: avg_volume_of_def mean_skipna_def dropna_def is_nan_def py_int_def)
  have "insights (stable_lib pad irr) ''X'' (augmented (stable_lib pad irr) f) = Inl NaNToInteger"
    unfolding a
    by (simp add: insights_def Let_def valid_rows_def is_nan_def v slope_of_def
        percent_change_of_def first_close_of_def truthy_def py_div_def)
  then show ?thesis
    by (simp add: generate_fst f_def [symmetric]) (simp add: f_def series_vol_def)
qed


lemma length_ffill_from [simp]: "length (ffill_from p xs) = length xs"
  by (induction xs arbitrary: p) auto

lemma length_pct_case:
  "length (case data of [] \<Rightarrow> [] | x # later \<Rightarrow> NaN # map2 g later data) = length data"
  by (cases data) auto

lemma length_pct_change [simp]: "length (pct_change pad xs) = length xs"
  by (simp add: pct_change_def Let_def length_pct_case)

lemma map_Close_set_return:
  "length vs = length rs \<Longrightarrow>
     map (Close \<circ> (\<lambda>(row, v). row\<lparr>daily_return := v\<rparr>)) (zip rs vs) = map Close rs"
  by (induction rs vs rule: list_induct2') auto

lemma Close_augmented: "map Close (rows (augmented lib f)) = map Close (by_date lib f)"
  by (simp add: augmented_def map_Close_set_return)



lemma dates_ascending_Some: "dates_ascending (map Some ds) \<longleftrightarrow> sorted ds"
proof (induction ds rule: induct_list012)
  case (3 x y zs)
  have "dates_ascending (map Some (x # y # zs))
        = (x \<le> y \<and> dates_ascending (map Some (y # zs)))"
    by simp
  also have "\<dots> = (x \<le> y \<and> sorted (y # zs))"
    by (simp only: "3.IH"(2))
  also have "\<dots> = sorted (x # y # zs)"
    by (simp only: sorted2)
  finally show ?case .
qed simp_all

lemma by_date_sorted:
  assumes "argsort_ok (np_argsort lib)"
  shows "sorted (map Date (by_date lib f))" and "mset (by_date lib f) = mset (rows f)"
proof -
  define items where "items = map (\<lambda>row. Some (Date row)) (rows f)"
  define p where "p = nargsort (np_argsort lib) items"
  have pm: "mset p = mset [0..<length (rows f)]"
    unfolding p_def using nargsort_mset [OF assms, of items] by (simp add: items_def)
  have ps: "\<forall>i \<in> set p. i < length (rows f)"
    unfolding p_def using nargsort_set [OF assms, of items] by (simp add: items_def)
  have b: "by_date lib f = map ((!) (rows f)) p"
    by (simp add: by_date_def p_def items_def)
  from pm show "mset (by_date lib f) = mset (rows f)"
    unfolding b by (rule mset_take_positions)
  have "map ((!) items) p = map Some (map Date (by_date lib f))"
    unfolding b using ps by (simp add: items_def)
  moreover have "dates_ascending (map ((!) items) p)"
    unfolding p_def by (rule nargsort_keys [OF assms])
  ultimately have "dates_ascending (map Some (map Date (by_date lib f)))"
    by (simp only:)
  then show "sorted (map Date (by_date lib f))"
    by (simp only: dates_ascending_Some)
qed



theorem generate_insights_twice_witness:
  "fst (generate_insights_from_history (stable_lib True (\<lambda>xs ys. Inl LibraryError)) ''X'' 0
          (snd (generate_insights_from_history (stable_lib True (\<lambda>xs ys. Inl LibraryError))
                  ''X'' 0 [series [price 738886 (Fin 100), price 738887 (Fin 110)]])))
   = Inr \<lparr>symbol = ''X'', date_range_start = 738886, date_range_end = 738887,
          latest_close = Fin 110, percent_change = Fin 10, trend_direction = ''upward'',
          volatility_profile = ''low'', volatility = NaN, average_daily_return = Fin (1 / 10),
          average_volume = None, moving_average_20 = Fin 105, momentum_slope = Fin 10,
          recommendation = ''Bullish momentum; consider accumulation with risk controls.''\<rparr>
   \<and> fst (generate_insights_from_history (stable_lib True (\<lambda>xs ys. Inl LibraryError)) ''X'' 1
          [series [], series [price 738886 (Fin 100), price 738887 (Fin 110)]])
   = Inr \<lparr>symbol = ''X'', date_range_start = 738886, date_range_end = 738887,
          latest_close = Fin 110, percent_change = Fin 10, trend_direction = ''upward'',
          volatility_profile = ''low'', volatility = NaN, average_daily_return = Fin (1 / 10),
          average_volume = None, moving_average_20 = Fin 105, momentum_slope = Fin 10,
          recommendation = ''Bullish momentum; consider accumulation with risk controls.''\<rparr>"
proof -
  note t = generate_insights_twice [of "stable_lib True (\<lambda>xs ys. Inl LibraryError)" "''X''" 0
      "[series [price 738886 (Fin 100), price 738887 (Fin 110)]]" 1
      "[series [], series [price 738886 (Fin 100), price 738887 (Fin 110)]]"]
  from t have a: "fst (generate_insights_from_history
          (stable_lib True (\<lambda>xs ys. Inl LibraryError)) ''X'' 0
          (snd (generate_insights_from_history (stable_lib True (\<lambda>xs ys. Inl LibraryError))
                  ''X'' 0 [series [price 738886 (Fin 100), price 738887 (Fin 110)]])))
     = fst (generate_insights_from_history (stable_lib True (\<lambda>xs ys. Inl LibraryError)) ''X'' 0
          [series [price 738886 (Fin 100), price 738887 (Fin 110)]])"
    by (rule conjunct1)
  from t have b: "fst (generate_insights_from_history
          (stable_lib True (\<lambda>xs ys. Inl LibraryError)) ''X'' 0
          [series [price 738886 (Fin 100), price 738887 (Fin 110)]])
     = fst (generate_insights_from_history (stable_lib True (\<lambda>xs ys. Inl LibraryError)) ''X'' 1
          [series [], series [price 738886 (Fin 100), price 738887 (Fin 110)]])"
    by simp
  from a b show ?thesis
    by (simp only: report_two_points simp_thms)
qed

end
